theory Spec2Isabelle
  imports Complex_Main
begin

section \<open>Numbers and arrays\<close>

text \<open>
  The program computes with Python floats and numpy float64 arrays. A finite float is
  modelled by the real number it stands for, with exact arithmetic: the finite range and
  the 53-bit precision of a double are not part of the model. What numpy does where
  real arithmetic has no value is kept: an array element is a \<open>real option\<close>, and
  \<open>None\<close> is a non-finite element (\<open>inf\<close>, \<open>-inf\<close> or \<open>nan\<close>). In
  \<open>build_grid\<close> an infinity arises only from an elementwise division by zero, and
  it is either passed to \<open>np.floor_divide\<close>, which gives \<open>nan\<close>, or published as
  it is, so that one value for all three is enough: every operation on \<open>None\<close>
  gives \<open>None\<close>, and every comparison with \<open>None\<close> is false.

  Every theorem below is therefore a statement about exact arithmetic. Where a result
  depends on which side of a rounding tie a number falls, a double that carries a
  rounding error may fall on the other side.

  Python itself raises where numpy does not: a float divided by the int \<open>0\<close> is a
  \<open>ZeroDivisionError\<close>, a missing dictionary key a \<open>KeyError\<close>.
\<close>

type_synonym npfloat = "real option"

datatype py_error = ZeroDivisionError | KeyError string

definition fadd :: "npfloat \<Rightarrow> npfloat \<Rightarrow> npfloat" where
  "fadd a b = (case a of None \<Rightarrow> None | Some x \<Rightarrow> (case b of None \<Rightarrow> None | Some y \<Rightarrow> Some (x + y)))"

definition fmul :: "npfloat \<Rightarrow> npfloat \<Rightarrow> npfloat" where
  "fmul a b = (case a of None \<Rightarrow> None | Some x \<Rightarrow> (case b of None \<Rightarrow> None | Some y \<Rightarrow> Some (x * y)))"

definition fneg :: "npfloat \<Rightarrow> npfloat" where
  "fneg a = map_option uminus a"

text \<open>Elementwise \<open>/\<close> of numpy: a zero divisor gives \<open>inf\<close> or \<open>nan\<close> (with a warning), not an exception.\<close>

definition np_true_divide :: "npfloat \<Rightarrow> npfloat \<Rightarrow> npfloat" where
  "np_true_divide a b =
     (case a of None \<Rightarrow> None
      | Some x \<Rightarrow> (case b of None \<Rightarrow> None
                  | Some y \<Rightarrow> if y = 0 then None else Some (x / y)))"

text \<open>\<open>np.floor_divide(a, d)\<close>: the floor of the quotient, as a float; \<open>nan\<close> for a non-finite \<open>a\<close>.\<close>

definition np_floor_divide :: "npfloat \<Rightarrow> real \<Rightarrow> npfloat" where
  "np_floor_divide a d =
     (case a of None \<Rightarrow> None
      | Some x \<Rightarrow> if d = 0 then None else Some (of_int \<lfloor>x / d\<rfloor>))"

text \<open>\<open>np.rint\<close>: the nearest integer, a tie going to the even one.\<close>

definition rint :: "real \<Rightarrow> real" where
  "rint x =
     (let f = \<lfloor>x\<rfloor>; d = x - of_int f
      in of_int (if d < 1 / 2 then f
                 else if 1 / 2 < d then f + 1
                 else if even f then f else f + 1))"

text \<open>
  \<open>np.round(x, decimals)\<close> scales by the power of ten, applies \<open>rint\<close> and
  scales back.
\<close>

definition np_round :: "real \<Rightarrow> int \<Rightarrow> real" where
  "np_round x decimals =
     (if 0 \<le> decimals then rint (x * 10 ^ nat decimals) / 10 ^ nat decimals
      else rint (x / 10 ^ nat (- decimals)) * 10 ^ nat (- decimals))"

definition np_round_arr :: "npfloat \<Rightarrow> int \<Rightarrow> npfloat" where
  "np_round_arr a decimals = map_option (\<lambda>x. np_round x decimals) a"

text \<open>\<open>a.cumsum()\<close>: the running sums, from the left.\<close>

fun cumsum_from :: "npfloat \<Rightarrow> npfloat list \<Rightarrow> npfloat list" where
  "cumsum_from s [] = []"
| "cumsum_from s (x # xs) = fadd s x # cumsum_from (fadd s x) xs"

definition cumsum :: "npfloat list \<Rightarrow> npfloat list" where
  "cumsum xs = cumsum_from (Some 0) xs"

section \<open>The grid calculation\<close>

text \<open>The columns of the data frame that \<open>build_grid\<close> returns.\<close>

record grid_df =
  Level :: "int list"
  Price :: "real list"
  Qty :: "npfloat list"
  Acc_Qty :: "npfloat list"
  Avg_Price :: "npfloat list"
  Unrealised :: "npfloat list"
  Drawdown :: "npfloat list"
  PnL :: "npfloat list"
  Margin_per_lvl :: "real list"
  Acc_Margin :: "real list"
  Nominal :: "real list"

text \<open>
  The body of the loop \<open>for i in range(1, levels)\<close>:
  \<open>draw[i] = draw[i-1] + (prices[i-1] - prices[i]) * acc_qty[i-1]\<close>.
  All three arrays have \<open>levels\<close> elements, so every index is in range.
\<close>

definition draw_step :: "real list \<Rightarrow> npfloat list \<Rightarrow> npfloat list \<Rightarrow> nat \<Rightarrow> npfloat list" where
  "draw_step prices acc_qty draw i =
     draw[i := fadd (draw ! (i - 1))
                    (fmul (Some (prices ! (i - 1) - prices ! i)) (acc_qty ! (i - 1)))]"

definition draw_loop :: "real list \<Rightarrow> npfloat list \<Rightarrow> int \<Rightarrow> npfloat list" where
  "draw_loop prices acc_qty levels =
     foldl (draw_step prices acc_qty) (map (\<lambda>_. Some 0) prices) [1..<nat levels]"

definition build_grid ::
  "real \<Rightarrow> real \<Rightarrow> real \<Rightarrow> int \<Rightarrow> real \<Rightarrow> int \<Rightarrow> int \<Rightarrow> py_error + (grid_df \<times> real)" where
  "build_grid min_px max_px start_px levels usdt_slice leverage price_dp =
     (let intervals = levels - 1 in
      if intervals = 0 then Inl ZeroDivisionError else
      let raw_gap = (max_px - min_px) / of_int intervals;
          raw_prices = map (\<lambda>k. max_px - of_int k * raw_gap) [0..levels - 1];
          prices = map (\<lambda>x. np_round x price_dp) raw_prices;
          qty0 = map (\<lambda>p. fmul (np_floor_divide (np_true_divide (Some usdt_slice) (Some p)) 10)
                             (Some 10)) prices;
          qty = map (\<lambda>q. if q = Some 0 then Some 10 else q) qty0;
          acc_qty = cumsum qty;
          vwap = map2 (\<lambda>s a. np_round_arr (np_true_divide s a) price_dp)
                      (cumsum (map2 (\<lambda>q p. fmul q (Some p)) qty prices)) acc_qty;
          unreal = map2 (\<lambda>p a. np_round_arr (fmul (Some (p - start_px)) a) 2) prices acc_qty;
          draw = map (\<lambda>d. fneg (np_round_arr d 2)) (draw_loop prices acc_qty levels)
      in
      if leverage = 0 then Inl ZeroDivisionError else
      let m_slice = np_round (usdt_slice / of_int leverage) 2;
          acc_margin = map (\<lambda>k. np_round (m_slice * of_int k) 2) [1..levels];
          notional = map (\<lambda>k. np_round (usdt_slice * of_int k) 2) [1..levels]
      in Inr (\<lparr> Level = [1..levels],
                 Price = prices,
                 Qty = qty,
                 Acc_Qty = acc_qty,
                 Avg_Price = vwap,
                 Unrealised = unreal,
                 Drawdown = draw,
                 PnL = unreal,
                 Margin_per_lvl = map (\<lambda>_. m_slice) [1..levels],
                 Acc_Margin = acc_margin,
                 Nominal = notional \<rparr>, raw_gap))"

text \<open>
  The conditions the specification puts on the parameters of one calculation
  (its \<open>GridParameters\<close>), in the order of the arguments of \<open>build_grid\<close>.
\<close>

definition valid_params :: "real \<Rightarrow> real \<Rightarrow> real \<Rightarrow> int \<Rightarrow> real \<Rightarrow> int \<Rightarrow> int \<Rightarrow> bool" where
  "valid_params min_px max_px start_px levels usdt_slice leverage price_dp \<longleftrightarrow>
     min_px < max_px \<and> 2 \<le> levels \<and> 0 < min_px \<and> 0 < max_px \<and> 0 < start_px \<and>
     0 < usdt_slice \<and> 1 \<le> leverage \<and> 2 \<le> price_dp \<and> price_dp \<le> 10"

text \<open>A data frame has \<open>n\<close> rows when each of its columns has \<open>n\<close> entries.\<close>

definition df_rows :: "grid_df \<Rightarrow> nat \<Rightarrow> bool" where
  "df_rows df n \<longleftrightarrow>
     length (Level df) = n \<and> length (Price df) = n \<and> length (Qty df) = n \<and>
     length (Acc_Qty df) = n \<and> length (Avg_Price df) = n \<and> length (Unrealised df) = n \<and>
     length (Drawdown df) = n \<and> length (PnL df) = n \<and> length (Margin_per_lvl df) = n \<and>
     length (Acc_Margin df) = n \<and> length (Nominal df) = n"

text \<open>
  The drawdown as the specification words it: \<open>draw[0] = 0\<close> and, for \<open>i \<ge> 1\<close>,
  \<open>draw[i] = draw[i-1] + (price[i-1] - price[i]) * acc_qty[i-1]\<close>.
\<close>

fun draw_spec :: "real list \<Rightarrow> npfloat list \<Rightarrow> nat \<Rightarrow> npfloat" where
  "draw_spec price acc_qty 0 = Some 0"
| "draw_spec price acc_qty (Suc i) =
     fadd (draw_spec price acc_qty i) (fmul (Some (price ! i - price ! Suc i)) (acc_qty ! i))"


text \<open>
  Two names for the proofs: the quantity of one row as \<open>build_grid\<close> computes it
  from the row's price, and the unrounded price of level \<open>k\<close> (counted from 0).
\<close>

definition qty_of :: "real \<Rightarrow> real \<Rightarrow> npfloat" where
  "qty_of usdt p =
     (let q = fmul (np_floor_divide (np_true_divide (Some usdt) (Some p)) 10) (Some 10)
      in if q = Some 0 then Some 10 else q)"

definition raw_price :: "real \<Rightarrow> real \<Rightarrow> int \<Rightarrow> int \<Rightarrow> real" where
  "raw_price min_px max_px n k = max_px - of_int k * ((max_px - min_px) / of_int (n - 1))"

text \<open>The Price column, and the unrounded volume-weighted average through row \<open>i\<close>.\<close>

definition grid_prices :: "real \<Rightarrow> real \<Rightarrow> int \<Rightarrow> int \<Rightarrow> real list" where
  "grid_prices min_px max_px n dp = map (\<lambda>k. np_round (raw_price min_px max_px n k) dp) [0..n - 1]"


section \<open>The page\<close>

text \<open>The values of the sidebar's input widgets, under the names the script gives them.\<close>

record widgets =
  px_top :: real
  px_bottom :: real
  spot :: real
  levels :: int
  slice_val :: real
  leverage :: int
  price_dp :: int
  gap_dp :: int




section \<open>Templates\<close>

text \<open>
  A template is a dictionary from field names to numbers; the store is a dictionary from
  template names to templates. Python keeps ints and floats apart, and so does JSON.
\<close>

datatype py_num = PyInt int | PyFloat real

type_synonym template = "string \<rightharpoonup> py_num"

type_synonym templates = "string \<rightharpoonup> template"

text \<open>
  The file \<open>grid_templates.json\<close>. Its text is kept up to what \<open>json.loads\<close>
  makes of it: \<open>Stored t\<close> is the text \<open>json.dumps(t, indent=2)\<close>, which
  \<open>json.loads\<close> reads back as \<open>t\<close> (the library's round trip for dictionaries
  with string keys and finite numbers is taken for granted); \<open>Corrupt\<close> is a text
  that \<open>json.loads\<close> rejects with \<open>JSONDecodeError\<close>.
\<close>

datatype template_file = No_file | Corrupt | Stored templates

definition load_templates :: "template_file \<Rightarrow> templates" where
  "load_templates f = (case f of No_file \<Rightarrow> Map.empty | Corrupt \<Rightarrow> Map.empty | Stored t \<Rightarrow> t)"

definition save_templates :: "templates \<Rightarrow> template_file" where
  "save_templates tpls = Stored tpls"

text \<open>\<open>d[k]\<close> raises \<open>KeyError\<close> on a missing key; \<open>d.get(k, default)\<close> does not.\<close>

definition getitem :: "template \<Rightarrow> string \<Rightarrow> py_error + py_num" where
  "getitem d k = (case d k of None \<Rightarrow> Inl (KeyError k) | Some v \<Rightarrow> Inr v)"

definition get_default :: "template \<Rightarrow> string \<Rightarrow> py_num \<Rightarrow> py_num" where
  "get_default d k dflt = (case d k of None \<Rightarrow> dflt | Some v \<Rightarrow> v)"

definition bind_err :: "py_error + 'a \<Rightarrow> ('a \<Rightarrow> py_error + 'b) \<Rightarrow> py_error + 'b" where
  "bind_err r f = (case r of Inl e \<Rightarrow> Inl e | Inr v \<Rightarrow> f v)"

definition template_to_kwargs :: "template \<Rightarrow> py_error + template" where
  "template_to_kwargs d =
     bind_err (getitem d ''max_price'') (\<lambda>v_top.
     bind_err (getitem d ''min_price'') (\<lambda>v_bottom.
     bind_err (getitem d ''start_price'') (\<lambda>v_spot.
     bind_err (getitem d ''levels'') (\<lambda>v_levels.
     bind_err (getitem d ''usdt_slice'') (\<lambda>v_slice.
     bind_err (getitem d ''leverage'') (\<lambda>v_leverage.
       Inr [''px_top'' \<mapsto> v_top,
            ''px_bottom'' \<mapsto> v_bottom,
            ''spot'' \<mapsto> v_spot,
            ''levels'' \<mapsto> v_levels,
            ''slice_val'' \<mapsto> v_slice,
            ''leverage'' \<mapsto> v_leverage,
            ''price_dp'' \<mapsto> get_default d ''price_dp'' (PyInt 6),
            ''gap_dp'' \<mapsto> get_default d ''gap_dp'' (PyInt 8)]))))))"

text \<open>The dictionary that the save button stores under the new name.\<close>

definition template_of :: "widgets \<Rightarrow> template" where
  "template_of w =
     [''max_price'' \<mapsto> PyFloat (px_top w),
      ''min_price'' \<mapsto> PyFloat (px_bottom w),
      ''start_price'' \<mapsto> PyFloat (spot w),
      ''levels'' \<mapsto> PyInt (levels w),
      ''usdt_slice'' \<mapsto> PyFloat (slice_val w),
      ''leverage'' \<mapsto> PyInt (leverage w),
      ''price_dp'' \<mapsto> PyInt (price_dp w),
      ''gap_dp'' \<mapsto> PyInt (gap_dp w)]"

text \<open>
  One run of the sidebar: \<open>tpls = load_templates()\<close> at the top of the script, then
  \<open>if st.button("Save template") and new_tpl_name:\<close> stores the widget values under
  the name and writes the whole dictionary back. The result is the file after the run.
\<close>

definition save_template_button :: "template_file \<Rightarrow> bool \<Rightarrow> string \<Rightarrow> widgets \<Rightarrow> template_file" where
  "save_template_button f clicked new_tpl_name w =
     (let tpls = load_templates f
      in if clicked \<and> new_tpl_name \<noteq> []
         then save_templates (tpls(new_tpl_name \<mapsto> template_of w))
         else f)"

section \<open>Rounding\<close>

lemma rint_of_int [simp]: "rint (of_int k) = of_int k"
  by (simp add: rint_def)

lemma rint_numeral [simp]: "rint (numeral k) = numeral k"
  using rint_of_int[of "numeral k"] by simp

lemma rint_0 [simp]: "rint 0 = 0"
  using rint_of_int[of 0] by simp

lemma rint_1 [simp]: "rint 1 = 1"
  using rint_of_int[of 1] by simp

lemma rint_cases: "rint x = of_int \<lfloor>x\<rfloor> \<or> rint x = of_int \<lfloor>x\<rfloor> + 1"
  by (simp add: rint_def Let_def)




lemma rint_mono: assumes "x \<le> y" shows "rint x \<le> rint y"
proof (cases "\<lfloor>x\<rfloor> = \<lfloor>y\<rfloor>")
  case True
  with assms show ?thesis unfolding rint_def Let_def by (simp; linarith)
next
  case False
  with assms have "\<lfloor>x\<rfloor> + 1 \<le> \<lfloor>y\<rfloor>" using floor_mono[OF assms] by linarith
  then have "(of_int \<lfloor>x\<rfloor> :: real) + 1 \<le> of_int \<lfloor>y\<rfloor>"
    by (metis of_int_1 of_int_add of_int_le_iff)
  moreover have "rint x \<le> of_int \<lfloor>x\<rfloor> + 1" using rint_cases[of x] by linarith
  moreover have "of_int \<lfloor>y\<rfloor> \<le> rint y" using rint_cases[of y] by linarith
  ultimately show ?thesis by linarith
qed


lemma rint_nonneg: "0 \<le> x \<Longrightarrow> 0 \<le> rint x"
  using rint_mono[of 0 x] rint_of_int[of 0] by simp


lemma np_round_mono: "x \<le> y \<Longrightarrow> np_round x d \<le> np_round y d"
  by (simp add: np_round_def rint_mono divide_right_mono mult_right_mono)


lemma np_round_0 [simp]: "np_round 0 d = 0"
  using rint_of_int[of 0] by (simp add: np_round_def)

lemma np_round_nonneg: "0 \<le> x \<Longrightarrow> 0 \<le> np_round x d"
  using np_round_mono[of 0 x d] by simp



section \<open>The columns of the result\<close>

lemma length_cumsum_from [simp]: "length (cumsum_from s xs) = length xs"
  by (induction xs arbitrary: s) simp_all

lemma length_cumsum [simp]: "length (cumsum xs) = length xs"
  by (simp add: cumsum_def)

lemma length_draw_step [simp]: "length (draw_step ps aq d i) = length d"
  by (simp add: draw_step_def)

lemma length_foldl_draw_step [simp]: "length (foldl (draw_step ps aq) d is) = length d"
  by (induction "is" arbitrary: d) simp_all

lemma length_draw_loop [simp]: "length (draw_loop ps aq n) = length ps"
  by (simp add: draw_loop_def)

lemma build_grid_Inr:
  assumes "n \<noteq> 1" "lev \<noteq> 0"
  shows "\<exists>df. build_grid min_px max_px start_px n usdt lev dp =
            Inr (df, (max_px - min_px) / of_int (n - 1)) \<and>
          Level df = [1..n] \<and>
          Price df = map (\<lambda>k. np_round (raw_price min_px max_px n k) dp) [0..n - 1] \<and>
          Qty df = map (qty_of usdt) (Price df) \<and>
          Acc_Qty df = cumsum (Qty df) \<and>
          Avg_Price df = map2 (\<lambda>s a. np_round_arr (np_true_divide s a) dp)
                           (cumsum (map2 (\<lambda>q p. fmul q (Some p)) (Qty df) (Price df))) (Acc_Qty df) \<and>
          Unrealised df = map2 (\<lambda>p a. np_round_arr (fmul (Some (p - start_px)) a) 2) (Price df) (Acc_Qty df) \<and>
          Drawdown df = map (\<lambda>d. fneg (np_round_arr d 2)) (draw_loop (Price df) (Acc_Qty df) n) \<and>
          PnL df = Unrealised df \<and>
          Margin_per_lvl df = map (\<lambda>_. np_round (usdt / of_int lev) 2) [1..n] \<and>
          Acc_Margin df = map (\<lambda>k. np_round (np_round (usdt / of_int lev) 2 * of_int k) 2) [1..n] \<and>
          Nominal df = map (\<lambda>k. np_round (usdt * of_int k) 2) [1..n]"
  using assms by (simp add: build_grid_def Let_def qty_of_def raw_price_def comp_def)

lemma foldl_draw_step_nth:
  assumes "k < length d0" "\<forall>i < length d0. d0 ! i = Some 0" "i < length d0"
  shows "foldl (draw_step ps aq) d0 [1..<Suc k] ! i = (if i \<le> k then draw_spec ps aq i else Some 0)"
  using assms(1,3)
proof (induction k arbitrary: i)
  case 0
  with assms(2) show ?case by simp
next
  case (Suc k)
  let ?d = "foldl (draw_step ps aq) d0 [1..<Suc k]"
  have k: "k < length d0" using Suc.prems(1) by simp
  have len: "length ?d = length d0" by simp
  have prev: "?d ! k = draw_spec ps aq k" using Suc.IH[OF k k] by simp
  have "foldl (draw_step ps aq) d0 [1..<Suc (Suc k)] = draw_step ps aq ?d (Suc k)"
    by simp
  also have "\<dots> ! i = (if i \<le> Suc k then draw_spec ps aq i else Some 0)"
  proof (cases "i = Suc k")
    case True
    then show ?thesis using Suc.prems len prev by (simp add: draw_step_def)
  next
    case False
    then have "draw_step ps aq ?d (Suc k) ! i = ?d ! i" by (simp add: draw_step_def)
    also have "\<dots> = (if i \<le> k then draw_spec ps aq i else Some 0)"
      using Suc.IH[OF k Suc.prems(2)] .
    finally show ?thesis using False by auto
  qed
  finally show ?case .
qed

lemma draw_loop_nth:
  assumes "length ps = nat n" "i < nat n"
  shows "draw_loop ps aq n ! i = draw_spec ps aq i"
proof -
  obtain k where k: "nat n = Suc k" using assms(2) by (cases "nat n") auto
  have "foldl (draw_step ps aq) (map (\<lambda>_. Some 0) ps) [1..<Suc k] ! i =
          (if i \<le> k then draw_spec ps aq i else Some 0)"
    by (rule foldl_draw_step_nth) (use assms k in simp_all)
  moreover have "i \<le> k" using assms(2) k by simp
  ultimately show ?thesis unfolding draw_loop_def k by simp
qed

lemma valid_params_returns:
  "valid_params min_px max_px start_px n usdt lev dp \<Longrightarrow> n \<noteq> 1 \<and> lev \<noteq> 0"
  by (auto simp: valid_params_def)

lemma build_grid_rows:
  assumes "build_grid min_px max_px start_px n usdt lev dp = Inr (df, g)"
  shows "df_rows df (nat n)"
  using assms
  by (auto simp: build_grid_def Let_def df_rows_def split: if_splits)

lemma raw_price_first [simp]: "raw_price min_px max_px n 0 = max_px"
  by (simp add: raw_price_def)

lemma raw_price_last: "n \<noteq> 1 \<Longrightarrow> raw_price min_px max_px n (n - 1) = min_px"
  by (simp add: raw_price_def)

lemma map_const_upto: "map (\<lambda>_. c) [1..n] = replicate (nat n) c"
  by (simp add: map_replicate_const)


section \<open>The price column\<close>

lemma length_grid_prices [simp]: "length (grid_prices min_px max_px n dp) = nat n"
  by (simp add: grid_prices_def)

lemma grid_prices_nth:
  "i < nat n \<Longrightarrow> grid_prices min_px max_px n dp ! i = np_round (raw_price min_px max_px n (int i)) dp"
  by (simp add: grid_prices_def)


lemma raw_price_antimono:
  assumes "min_px \<le> max_px" "2 \<le> n" "j \<le> k"
  shows "raw_price min_px max_px n k \<le> raw_price min_px max_px n j"
proof -
  have "0 \<le> (max_px - min_px) / of_int (n - 1)" using assms(1,2) by simp
  moreover have "(of_int j :: real) \<le> of_int k" using assms(3) by simp
  ultimately have "of_int j * ((max_px - min_px) / of_int (n - 1)) \<le> of_int k * ((max_px - min_px) / of_int (n - 1))"
    by (rule mult_right_mono[rotated])
  then show ?thesis by (simp add: raw_price_def)
qed

lemma raw_price_ge_min:
  assumes "min_px \<le> max_px" "2 \<le> n" "k \<le> n - 1"
  shows "min_px \<le> raw_price min_px max_px n k"
proof -
  have "raw_price min_px max_px n (n - 1) \<le> raw_price min_px max_px n k"
    using assms by (rule raw_price_antimono)
  moreover have "raw_price min_px max_px n (n - 1) = min_px"
    using assms(2) by (simp add: raw_price_last)
  ultimately show ?thesis by simp
qed


lemma grid_prices_nonneg:
  assumes "min_px \<le> max_px" "2 \<le> n" "0 \<le> min_px" "i < nat n"
  shows "0 \<le> grid_prices min_px max_px n dp ! i"
proof -
  have "min_px \<le> raw_price min_px max_px n (int i)"
    using assms by (intro raw_price_ge_min) simp_all
  then have "0 \<le> raw_price min_px max_px n (int i)" using assms(3) by simp
  then show ?thesis using assms(4) by (simp add: grid_prices_nth np_round_nonneg)
qed





section \<open>Quantities and running sums\<close>

lemma qty_of_zero [simp]: "qty_of usdt 0 = None"
  by (simp add: qty_of_def np_true_divide_def np_floor_divide_def fmul_def)












section \<open>Volume-weighted averages\<close>







section \<open>The drawdown column\<close>

text \<open>
  Claim C1. For valid parameters \<open>build_grid\<close> returns a table whose Price column
  holds the raw prices rounded to \<open>price_dp\<close> places and whose Drawdown column is,
  row by row, \<open>-round(draw[i], 2)\<close> for the sequence \<open>draw\<close> of the specification
  taken over those rounded prices and the Acc Qty column: the loop of the code, which
  updates the array in place, computes exactly that recurrence, and nothing is rounded
  before the last step.
\<close>

theorem drawdown_sequential:
  assumes "valid_params min_px max_px start_px n usdt lev dp"
  shows "\<exists>df g. build_grid min_px max_px start_px n usdt lev dp = Inr (df, g) \<and>
           length (Price df) = nat n \<and> length (Drawdown df) = nat n \<and>
           (\<forall>i < nat n.
              Price df ! i = np_round (raw_price min_px max_px n (int i)) dp \<and>
              Drawdown df ! i = fneg (np_round_arr (draw_spec (Price df) (Acc_Qty df) i) 2))"
proof -
  from valid_params_returns[OF assms] have ok: "n \<noteq> 1" "lev \<noteq> 0" by simp_all
  obtain df where df: "build_grid min_px max_px start_px n usdt lev dp = Inr (df, (max_px - min_px) / of_int (n - 1))"
    and price: "Price df = map (\<lambda>k. np_round (raw_price min_px max_px n k) dp) [0..n - 1]"
    and draw: "Drawdown df = map (\<lambda>d. fneg (np_round_arr d 2)) (draw_loop (Price df) (Acc_Qty df) n)"
    using build_grid_Inr[OF ok, of min_px max_px start_px usdt dp] by blast
  have len: "length (Price df) = nat n" by (simp add: price)
  have "Price df ! i = np_round (raw_price min_px max_px n (int i)) dp"
    if "i < nat n" for i
    using that by (simp add: price)
  moreover have "Drawdown df ! i = fneg (np_round_arr (draw_spec (Price df) (Acc_Qty df) i) 2)"
    if "i < nat n" for i
    using that len by (simp add: draw draw_loop_nth)
  ultimately show ?thesis using df len by (simp add: draw)
qed

theorem drawdown_sequential_witness:
  "valid_params 1 2 (3 / 2) 3 100 5 2 \<and>
   (\<exists>df g. build_grid 1 2 (3 / 2) 3 100 5 2 = Inr (df, g) \<and>
           length (Price df) = nat 3 \<and> length (Drawdown df) = nat 3 \<and>
           (\<forall>i < nat 3.
              Price df ! i = np_round (raw_price 1 2 3 (int i)) 2 \<and>
              Drawdown df ! i = fneg (np_round_arr (draw_spec (Price df) (Acc_Qty df) i) 2)))"
proof -
  have h: "valid_params 1 2 (3 / 2) 3 100 5 2" by (simp add: valid_params_def)
  show ?thesis using h drawdown_sequential[OF h] by (rule conjI)
qed

section \<open>Rows and end prices\<close>



section \<open>Worked examples\<close>





section \<open>Quantities\<close>




section \<open>Order of the prices\<close>




section \<open>Sign of the drawdown\<close>




section \<open>The specification's scenario\<close>

text \<open>
  Claim C6. For \<open>min_price = 1.0\<close>, \<open>max_price = 7.0\<close>, \<open>start_price = 2.7916\<close>,
  \<open>levels = 124\<close>, \<open>usdt_slice = 203.252\<close>, \<open>leverage = 50\<close> and
  \<open>price_dp = 6\<close>, \<open>build_grid\<close> returns the raw gap \<open>6.0 / 123\<close> and a table
  of 124 rows whose first Price is 7.0 and whose last Price is 1.0, whose Margin per lvl
  is 4.07 in every row, and whose last row has Acc Margin 504.68 and Nominal 25203.25.
\<close>

theorem spec_scenario:
  "\<exists>df. build_grid 1 7 2.7916 124 203.252 50 6 = Inr (df, 6 / 123) \<and>
        df_rows df 124 \<and>
        Price df ! 0 = 7 \<and> Price df ! 123 = 1 \<and>
        Margin_per_lvl df = replicate 124 4.07 \<and>
        Acc_Margin df ! 123 = 504.68 \<and>
        Nominal df ! 123 = 25203.25"
proof -
  have ok: "(124::int) \<noteq> 1" "(50::int) \<noteq> 0" by simp_all
  obtain df where df: "build_grid 1 7 2.7916 124 203.252 50 6 = Inr (df, (7 - 1) / of_int (124 - 1))"
    and price: "Price df = map (\<lambda>k. np_round (raw_price 1 7 124 k) 6) [0..124 - 1]"
    and margin: "Margin_per_lvl df = map (\<lambda>_. np_round (203.252 / of_int 50) 2) [1..124]"
    and acc: "Acc_Margin df = map (\<lambda>k. np_round (np_round (203.252 / of_int 50) 2 * of_int k) 2) [1..124]"
    and nominal: "Nominal df = map (\<lambda>k. np_round (203.252 * of_int k) 2) [1..124]"
    using build_grid_Inr[OF ok, of 1 7 "2.7916" "203.252" 6] by blast
  have rows: "df_rows df 124" using build_grid_rows[OF df] by simp
  have m: "np_round (203.252 / of_int 50) 2 = 4.07"
    by (simp add: np_round_def rint_def Let_def)
  have p0: "Price df ! 0 = 7"
    unfolding price by (subst nth_map) (simp_all add: np_round_def)
  have "Price df ! 123 = np_round (raw_price 1 7 124 123) 6"
    unfolding price by (subst nth_map) simp_all
  also have "raw_price 1 7 124 123 = 1" by (simp add: raw_price_def)
  finally have p123: "Price df ! 123 = 1" by (simp add: np_round_def)
  have mg: "Margin_per_lvl df = replicate 124 4.07"
    unfolding margin m by (simp only: map_const_upto) simp
  have "Acc_Margin df ! 123 = np_round (4.07 * 124) 2"
    unfolding acc m by (subst nth_map) simp_all
  also have "\<dots> = 504.68" by (simp add: np_round_def rint_def Let_def)
  finally have a: "Acc_Margin df ! 123 = 504.68" .
  have "Nominal df ! 123 = np_round (203.252 * 124) 2"
    unfolding nominal by (subst nth_map) simp_all
  also have "\<dots> = 25203.25" by (simp add: np_round_def rint_def Let_def)
  finally have nm: "Nominal df ! 123 = 25203.25" .
  from df have "build_grid 1 7 2.7916 124 203.252 50 6 = Inr (df, 6 / 123)" by simp
  then show ?thesis using rows p0 p123 mg a nm by blast
qed

section \<open>The range check\<close>



section \<open>Template round trip\<close>

text \<open>
  Claim C8. Whatever the template file held before, saving the widget values under a
  non-empty name and then loading the templates gives, under that name, a record that
  \<open>template_to_kwargs\<close> converts back to exactly the saved values, \<open>price_dp\<close> and
  \<open>gap_dp\<close> included: both are stored, so neither default is used.
\<close>

theorem template_round_trip:
  assumes "new_tpl_name \<noteq> []"
  shows "\<exists>d. load_templates (save_template_button f True new_tpl_name w) new_tpl_name = Some d \<and>
             d = template_of w \<and>
             template_to_kwargs d =
               Inr [''px_top'' \<mapsto> PyFloat (px_top w),
                    ''px_bottom'' \<mapsto> PyFloat (px_bottom w),
                    ''spot'' \<mapsto> PyFloat (spot w),
                    ''levels'' \<mapsto> PyInt (levels w),
                    ''slice_val'' \<mapsto> PyFloat (slice_val w),
                    ''leverage'' \<mapsto> PyInt (leverage w),
                    ''price_dp'' \<mapsto> PyInt (price_dp w),
                    ''gap_dp'' \<mapsto> PyInt (gap_dp w)]"
proof -
  have "load_templates (save_template_button f True new_tpl_name w) new_tpl_name = Some (template_of w)"
    using assms by (simp add: save_template_button_def save_templates_def load_templates_def)
  moreover have "template_to_kwargs (template_of w) =
               Inr [''px_top'' \<mapsto> PyFloat (px_top w),
                    ''px_bottom'' \<mapsto> PyFloat (px_bottom w),
                    ''spot'' \<mapsto> PyFloat (spot w),
                    ''levels'' \<mapsto> PyInt (levels w),
                    ''slice_val'' \<mapsto> PyFloat (slice_val w),
                    ''leverage'' \<mapsto> PyInt (leverage w),
                    ''price_dp'' \<mapsto> PyInt (price_dp w),
                    ''gap_dp'' \<mapsto> PyInt (gap_dp w)]"
    by (simp add: template_to_kwargs_def template_of_def getitem_def bind_err_def get_default_def)
  ultimately show ?thesis by blast
qed

theorem template_round_trip_witness:
  "''swing'' \<noteq> [] \<and>
   (\<exists>d. load_templates (save_template_button Corrupt True ''swing''
            \<lparr>px_top = 7, px_bottom = 1, spot = 2.7916, levels = 124, slice_val = 203.252,
             leverage = 50, price_dp = 4, gap_dp = 5\<rparr>) ''swing'' = Some d \<and>
        template_to_kwargs d =
          Inr [''px_top'' \<mapsto> PyFloat 7,
               ''px_bottom'' \<mapsto> PyFloat 1,
               ''spot'' \<mapsto> PyFloat 2.7916,
               ''levels'' \<mapsto> PyInt 124,
               ''slice_val'' \<mapsto> PyFloat 203.252,
               ''leverage'' \<mapsto> PyInt 50,
               ''price_dp'' \<mapsto> PyInt 4,
               ''gap_dp'' \<mapsto> PyInt 5])"
proof -
  have h: "''swing'' \<noteq> []" by simp
  show ?thesis
    using h template_round_trip[OF h, of Corrupt
      "\<lparr>px_top = 7, px_bottom = 1, spot = 2.7916, levels = 124, slice_val = 203.252,
        leverage = 50, price_dp = 4, gap_dp = 5\<rparr>"]
    by simp
qed

section \<open>Division by zero\<close>



section \<open>Average price\<close>



end
